theory Spec2Isabelle
  imports Main "HOL-Library.Word"
begin

section \<open>JavaScript values used by the client\<close>

text \<open>
  Strings that the client only compares, concatenates or passes on are lists of
  characters (octets; a character outside ASCII is its UTF-8 sequence). A string
  whose length or characters the client inspects, the password, is the list of its
  UTF-16 code units, which is what \<open>length\<close> and a regular expression without flags
  see. An absent value (\<open>null\<close>) is \<open>None\<close>. A thrown
  \<open>Error\<close> is a value carrying its message; an asynchronous function that may throw
  returns \<open>js_error + 'a\<close>, with \<open>Inl\<close> for the rejection.
\<close>

datatype js_error = Error (message: string)

definition startsWith :: "string \<Rightarrow> string \<Rightarrow> bool" where
  \<comment> \<open>\<open>s.startsWith(p)\<close>\<close>
  "startsWith s p = (take (length p) s = p)"

definition js_string :: "string option \<Rightarrow> string" where
  \<comment> \<open>a string-or-null value inside a template literal: \<open>`${v}`\<close>\<close>
  "js_string v = (case v of None \<Rightarrow> ''null'' | Some s \<Rightarrow> s)"

definition truthy :: "string option \<Rightarrow> bool" where
  \<comment> \<open>\<open>null\<close>, \<open>undefined\<close> and the empty string are falsy\<close>
  "truthy v = (case v of None \<Rightarrow> False | Some s \<Rightarrow> s \<noteq> [])"

definition or_else :: "string option \<Rightarrow> string \<Rightarrow> string" where
  \<comment> \<open>\<open>v || fallback\<close> for a string-or-undefined \<open>v\<close>\<close>
  "or_else v fallback = (case v of None \<Rightarrow> fallback | Some s \<Rightarrow> if s = [] then fallback else s)"

definition js_bool :: "bool \<Rightarrow> string" where
  "js_bool b = (if b then ''true'' else ''false'')"

definition digit_char :: "nat \<Rightarrow> char" where
  "digit_char d = char_of (48 + d)"

fun string_of_nat :: "nat \<Rightarrow> string" where
  "string_of_nat n =
     (if n < 10 then [digit_char n] else string_of_nat (n div 10) @ [digit_char (n mod 10)])"

declare string_of_nat.simps [simp del]

type_synonym utf16 = "16 word list"

definition units :: "string \<Rightarrow> utf16" where
  \<comment> \<open>the code units of a string of ASCII characters: one unit for each character\<close>
  "units s = map (\<lambda>c. of_nat (of_char c)) s"

definition test_range :: "char \<Rightarrow> char \<Rightarrow> utf16 \<Rightarrow> bool" where
  \<comment> \<open>\<open>/[lo-hi]/.test(s)\<close> for ASCII \<open>lo\<close> and \<open>hi\<close>: some code unit of \<open>s\<close> lies in the range\<close>
  "test_range lo hi s =
     list_ex (\<lambda>u. (of_char lo :: nat) \<le> unat u \<and> unat u \<le> (of_char hi :: nat)) s"

section \<open>Device storage, requests and responses\<close>

text \<open>
  The world the services act on: the key-value store \<open>AsyncStorage\<close> and the
  sequence of HTTP requests handed to \<open>fetch\<close> so far. Numbers that the client only
  passes through (coordinates) have the open type \<open>'n\<close>.
\<close>

datatype 'n form_value =
    Str string
  | Str16 utf16  \<comment> \<open>a string given by its code units\<close>
  | Num 'n
  | File string string string  \<comment> \<open>the object \<open>{uri, type, name}\<close>, in this order\<close>

datatype 'n body =
    NoBody
  | JsonBody "(string \<times> string) list"  \<comment> \<open>\<open>JSON.stringify\<close> of an object of strings\<close>
  | FormData "(string \<times> 'n form_value) list"  \<comment> \<open>the entries, in the order appended\<close>

record 'n request =
  url :: string
  http_method :: string
  headers :: "(string \<times> string) list"
  body :: "'n body"

datatype 'd json =
    NotJson string  \<comment> \<open>\<open>response.json()\<close> rejects, with this message\<close>
  | Json "string option" 'd  \<comment> \<open>an object: its \<open>detail\<close> field when present, and the object\<close>

record 'd response =
  status_code :: nat
  json_body :: "'d json"

definition ok :: "'d response \<Rightarrow> bool" where
  \<comment> \<open>\<open>response.ok\<close>: the status is in the range 200 to 299\<close>
  "ok r = (200 \<le> status_code r \<and> status_code r \<le> 299)"

record 'n world =
  storage :: "string \<rightharpoonup> string"
  sent :: "'n request list"

text \<open>
  The backend is outside the repository: it is a parameter, any function from the
  requests seen so far and the current request to a response or a transport failure.
\<close>

type_synonym ('n, 'd) server = "'n request list \<Rightarrow> 'n request \<Rightarrow> js_error + 'd response"

definition fetch :: "('n, 'd) server \<Rightarrow> 'n request \<Rightarrow> 'n world \<Rightarrow> (js_error + 'd response) \<times> 'n world" where
  "fetch srv req w = (srv (sent w) req, w\<lparr>sent := sent w @ [req]\<rparr>)"

definition read_json :: "(string option \<Rightarrow> string) \<Rightarrow> js_error + 'd response \<Rightarrow> js_error + 'd" where
  \<comment> \<open>\<open>const data = await response.json(); if (!response.ok) throw new Error(msg); return data;\<close>
      where \<open>msg\<close> may read \<open>data.detail\<close>\<close>
  "read_json msg r =
     (case r of
        Inl e \<Rightarrow> Inl e
      | Inr resp \<Rightarrow>
          (case json_body resp of
             NotJson m \<Rightarrow> Inl (Error m)
           | Json detail data \<Rightarrow> if \<not> ok resp then Inl (Error (msg detail)) else Inr data))"

definition API_URL :: string where
  \<comment> \<open>the value in \<open>App.js\<close>; the second copy of the source has \<open>http://0.0.0.0:8000\<close>\<close>
  "API_URL = ''https://attappv2.duckdns.org''"

section \<open>Authentication service\<close>

definition getToken :: "'n world \<Rightarrow> string option" where
  "getToken w = storage w ''token''"

definition getUser :: "'n world \<Rightarrow> string option" where
  \<comment> \<open>the stored text of the identity, before \<open>JSON.parse\<close>; \<open>null\<close> when absent or empty\<close>
  "getUser w = (let user = storage w ''user'' in if truthy user then user else None)"

definition logout :: "'n world \<Rightarrow> 'n world" where
  "logout w = w\<lparr>storage := (storage w)(''token'' := None, ''user'' := None)\<rparr>"

text \<open>
  The login response carries \<open>token\<close> and \<open>employee\<close>; the employee is kept as the text
  \<open>JSON.stringify\<close> gives.
\<close>

definition login :: "('n, string \<times> string) server \<Rightarrow> string \<Rightarrow> string \<Rightarrow> 'n world
    \<Rightarrow> (js_error + string \<times> string) \<times> 'n world" where
  "login srv email password w =
     (let (response, w1) = fetch srv
            \<lparr>url = API_URL @ ''/api/auth/login'', http_method = ''POST'',
             headers = [(''Content-Type'', ''application/json'')],
             body = JsonBody [(''email'', email), (''password'', password)]\<rparr> w
      in case read_json (\<lambda>detail. or_else detail ''Login failed'') response of
           Inl e \<Rightarrow> (Inl e, w1)
         | Inr (token, employee) \<Rightarrow>
             (Inr (token, employee),
              w1\<lparr>storage := (storage w1)(''token'' \<mapsto> token, ''user'' \<mapsto> employee)\<rparr>))"

section \<open>API service\<close>

definition face_image_part :: "string \<Rightarrow> (string \<times> 'n form_value) list" where
  \<comment> \<open>the branch on \<open>imageUri.startsWith('data:image/')\<close> shared by the three uploads\<close>
  "face_image_part imageUri =
     (if startsWith imageUri ''data:image/''
      then [(''face_image_base64'', Str imageUri)]
      else [(''face_image'', File imageUri ''image/jpeg'' ''face.jpg'')])"

definition bearer :: "string option \<Rightarrow> (string \<times> string) list" where
  \<comment> \<open>\<open>headers: { Authorization: `Bearer ${token}` }\<close>\<close>
  "bearer token = [(''Authorization'', ''Bearer '' @ js_string token)]"

definition checkIn :: "('n, 'd) server \<Rightarrow> 'n \<Rightarrow> 'n \<Rightarrow> string \<Rightarrow> 'n world \<Rightarrow> (js_error + 'd) \<times> 'n world" where
  "checkIn srv latitude longitude imageUri w =
     (let token = getToken w;
          formData = [(''latitude'', Num latitude), (''longitude'', Num longitude)]
                     @ face_image_part imageUri;
          (response, w1) = fetch srv
            \<lparr>url = API_URL @ ''/api/attendance/check-in'', http_method = ''POST'',
             headers = bearer token, body = FormData formData\<rparr> w
      in (read_json (\<lambda>detail. or_else detail ''Check-in failed'') response, w1))"

definition checkOut :: "('n, 'd) server \<Rightarrow> 'n \<Rightarrow> 'n \<Rightarrow> string \<Rightarrow> 'n world \<Rightarrow> (js_error + 'd) \<times> 'n world" where
  "checkOut srv latitude longitude imageUri w =
     (let token = getToken w;
          formData = [(''latitude'', Num latitude), (''longitude'', Num longitude)]
                     @ face_image_part imageUri;
          (response, w1) = fetch srv
            \<lparr>url = API_URL @ ''/api/attendance/check-out'', http_method = ''POST'',
             headers = bearer token, body = FormData formData\<rparr> w
      in (read_json (\<lambda>detail. or_else detail ''Check-out failed'') response, w1))"

definition get_json :: "('n, 'd) server \<Rightarrow> string \<Rightarrow> string \<Rightarrow> string \<Rightarrow> 'n world \<Rightarrow> (js_error + 'd) \<times> 'n world" where
  \<comment> \<open>the pattern of every body-less call: read the token, \<open>fetch\<close> the URL with the bearer
      header, and throw the fixed message on a response that is not ok\<close>
  "get_json srv meth u failure w =
     (let token = getToken w;
          (response, w1) = fetch srv
            \<lparr>url = u, http_method = meth, headers = bearer token, body = NoBody\<rparr> w
      in (read_json (\<lambda>detail. failure) response, w1))"

definition getStatus :: "('n, 'd) server \<Rightarrow> 'n world \<Rightarrow> (js_error + 'd) \<times> 'n world" where
  "getStatus srv w = get_json srv ''GET'' (API_URL @ ''/api/employee/status'') ''Failed to fetch status'' w"

definition getMyAttendance :: "('n, 'd) server \<Rightarrow> nat \<Rightarrow> nat \<Rightarrow> 'n world \<Rightarrow> (js_error + 'd) \<times> 'n world" where
  "getMyAttendance srv page limit w =
     get_json srv ''GET''
       (API_URL @ ''/api/employee/my-attendance?page='' @ string_of_nat page
          @ ''&limit='' @ string_of_nat limit)
       ''Failed to fetch attendance'' w"

definition getProfile :: "('n, 'd) server \<Rightarrow> 'n world \<Rightarrow> (js_error + 'd) \<times> 'n world" where
  "getProfile srv w = get_json srv ''GET'' (API_URL @ ''/api/employee/profile'') ''Failed to fetch profile'' w"

record employee_data =
  employee_id :: string
  name :: string
  email :: string
  password :: utf16
  role :: string

definition registerEmployee :: "('n, 'd) server \<Rightarrow> employee_data \<Rightarrow> string \<Rightarrow> 'n world
    \<Rightarrow> (js_error + 'd) \<times> 'n world" where
  "registerEmployee srv employeeData imageUri w =
     (let token = getToken w;
          formData = [(''employee_id'', Str (employee_id employeeData)),
                      (''name'', Str (name employeeData)),
                      (''email'', Str (email employeeData)),
                      (''password'', Str16 (password employeeData)),
                      (''role'', Str (role employeeData))]
                     @ face_image_part imageUri;
          (response, w1) = fetch srv
            \<lparr>url = API_URL @ ''/api/admin/register-employee'', http_method = ''POST'',
             headers = bearer token, body = FormData formData\<rparr> w
      in case read_json (\<lambda>detail. or_else detail ''Registration failed'') response of
           Inl error \<Rightarrow> (Inl (Error (''Failed to register employee: '' @ message error)), w1)
         | Inr data \<Rightarrow> (Inr data, w1))"

definition getAttendance :: "('n, 'd) server \<Rightarrow> string option \<Rightarrow> string option \<Rightarrow> nat \<Rightarrow> nat \<Rightarrow> 'n world
    \<Rightarrow> (js_error + 'd) \<times> 'n world" where
  "getAttendance srv date employeeId page limit w =
     (let u0 = API_URL @ ''/api/admin/attendance?page='' @ string_of_nat page
                 @ ''&limit='' @ string_of_nat limit;
          u1 = (if truthy date then u0 @ ''&date='' @ js_string date else u0);
          u2 = (if truthy employeeId then u1 @ ''&employee_id='' @ js_string employeeId else u1)
      in get_json srv ''GET'' u2 ''Failed to fetch attendance'' w)"

definition getEmployees :: "('n, 'd) server \<Rightarrow> nat \<Rightarrow> nat \<Rightarrow> 'n world \<Rightarrow> (js_error + 'd) \<times> 'n world" where
  "getEmployees srv page limit w =
     get_json srv ''GET''
       (API_URL @ ''/api/admin/employees?page='' @ string_of_nat page
          @ ''&limit='' @ string_of_nat limit)
       ''Failed to fetch employees'' w"

definition getAnalytics :: "('n, 'd) server \<Rightarrow> string option \<Rightarrow> string option \<Rightarrow> 'n world
    \<Rightarrow> (js_error + 'd) \<times> 'n world" where
  "getAnalytics srv startDate endDate w =
     (let u0 = API_URL @ ''/api/admin/analytics?'';
          u1 = (if truthy startDate then u0 @ ''start_date='' @ js_string startDate @ ''&'' else u0);
          u2 = (if truthy endDate then u1 @ ''end_date='' @ js_string endDate else u1)
      in get_json srv ''GET'' u2 ''Failed to fetch analytics'' w)"

text \<open>
  Identifiers of employees and shifts appear only inside template literals and form
  fields; they are taken in their string rendering.
\<close>

definition updateEmployeeStatus :: "('n, 'd) server \<Rightarrow> string \<Rightarrow> bool \<Rightarrow> 'n world \<Rightarrow> (js_error + 'd) \<times> 'n world" where
  "updateEmployeeStatus srv employeeId isActive w =
     get_json srv ''PATCH''
       (API_URL @ ''/api/admin/employees/'' @ employeeId @ ''/status?is_active='' @ js_bool isActive)
       ''Failed to update employee status'' w"

definition getSettings :: "('n, 'd) server \<Rightarrow> 'n world \<Rightarrow> (js_error + 'd) \<times> 'n world" where
  "getSettings srv w = get_json srv ''GET'' (API_URL @ ''/api/admin/settings'') ''Failed to fetch settings'' w"

definition updateSettings :: "('n, 'd) server \<Rightarrow> (string \<times> string) list \<Rightarrow> 'n world \<Rightarrow> (js_error + 'd) \<times> 'n world" where
  "updateSettings srv settings w =
     (let token = getToken w;
          (response, w1) = fetch srv
            \<lparr>url = API_URL @ ''/api/admin/settings/bulk-update'', http_method = ''POST'',
             headers = bearer token @ [(''Content-Type'', ''application/json'')],
             body = JsonBody settings\<rparr> w
      in (read_json (\<lambda>detail. or_else detail ''Failed to update settings'') response, w1))"

definition send_detail :: "('n, 'd) server \<Rightarrow> string \<Rightarrow> string \<Rightarrow> 'n body \<Rightarrow> string \<Rightarrow> 'n world
    \<Rightarrow> (js_error + 'd) \<times> 'n world" where
  \<comment> \<open>the pattern of the remaining admin calls: bearer header only, and
      \<open>data.detail || fallback\<close> as the message of a response that is not ok\<close>
  "send_detail srv meth u b fallback w =
     (let token = getToken w;
          (response, w1) = fetch srv
            \<lparr>url = u, http_method = meth, headers = bearer token, body = b\<rparr> w
      in (read_json (\<lambda>detail. or_else detail fallback) response, w1))"

definition deleteEmployee :: "('n, 'd) server \<Rightarrow> string \<Rightarrow> 'n world \<Rightarrow> (js_error + 'd) \<times> 'n world" where
  "deleteEmployee srv employeeId w =
     send_detail srv ''DELETE'' (API_URL @ ''/api/admin/employees/'' @ employeeId) NoBody
       ''Failed to delete employee'' w"

definition getShifts :: "('n, 'd) server \<Rightarrow> 'n world \<Rightarrow> (js_error + 'd) \<times> 'n world" where
  "getShifts srv w = get_json srv ''GET'' (API_URL @ ''/api/admin/shifts'') ''Failed to fetch shifts'' w"

definition shift_form :: "(string \<times> string) list \<Rightarrow> (string \<times> 'n form_value) list" where
  \<comment> \<open>\<open>Object.keys(shiftData).forEach(key => formData.append(key, shiftData[key]))\<close>\<close>
  "shift_form shiftData = map (\<lambda>(key, v). (key, Str v)) shiftData"

definition createShift :: "('n, 'd) server \<Rightarrow> (string \<times> string) list \<Rightarrow> 'n world \<Rightarrow> (js_error + 'd) \<times> 'n world" where
  "createShift srv shiftData w =
     send_detail srv ''POST'' (API_URL @ ''/api/admin/shifts'') (FormData (shift_form shiftData))
       ''Failed to create shift'' w"

definition updateShift :: "('n, 'd) server \<Rightarrow> string \<Rightarrow> (string \<times> string) list \<Rightarrow> 'n world
    \<Rightarrow> (js_error + 'd) \<times> 'n world" where
  "updateShift srv shiftId shiftData w =
     send_detail srv ''PUT'' (API_URL @ ''/api/admin/shifts/'' @ shiftId)
       (FormData (shift_form shiftData)) ''Failed to update shift'' w"

definition deleteShift :: "('n, 'd) server \<Rightarrow> string \<Rightarrow> 'n world \<Rightarrow> (js_error + 'd) \<times> 'n world" where
  "deleteShift srv shiftId w =
     send_detail srv ''DELETE'' (API_URL @ ''/api/admin/shifts/'' @ shiftId) NoBody
       ''Failed to delete shift'' w"

definition assignShift :: "('n, 'd) server \<Rightarrow> string \<Rightarrow> string \<Rightarrow> string \<Rightarrow> string option \<Rightarrow> 'n world
    \<Rightarrow> (js_error + 'd) \<times> 'n world" where
  "assignShift srv employeeId shiftId effectiveFrom effectiveTo w =
     (let formData = [(''shift_id'', Str shiftId), (''effective_from'', Str effectiveFrom)]
                     @ (if truthy effectiveTo then [(''effective_to'', Str (js_string effectiveTo))] else [])
      in send_detail srv ''POST'' (API_URL @ ''/api/admin/employees/'' @ employeeId @ ''/assign-shift'')
           (FormData formData) ''Failed to assign shift'' w)"

definition getEmployeeShift :: "('n, 'd) server \<Rightarrow> string \<Rightarrow> 'n world \<Rightarrow> (js_error + 'd) \<times> 'n world" where
  "getEmployeeShift srv employeeId w =
     get_json srv ''GET'' (API_URL @ ''/api/admin/employees/'' @ employeeId @ ''/shift'')
       ''Failed to fetch employee shift'' w"

text \<open>
  The methods of \<open>ApiService\<close>, as one type of calls: \<open>call srv c\<close> is the method named
  by \<open>c\<close> applied to its arguments. Every one of them is an authenticated operation.
\<close>

datatype 'n api_call =
    CheckIn 'n 'n string
  | CheckOut 'n 'n string
  | GetStatus
  | GetMyAttendance nat nat
  | GetProfile
  | RegisterEmployee employee_data string
  | GetAttendance "string option" "string option" nat nat
  | GetEmployees nat nat
  | GetAnalytics "string option" "string option"
  | UpdateEmployeeStatus string bool
  | GetSettings
  | UpdateSettings "(string \<times> string) list"
  | DeleteEmployee string
  | GetShifts
  | CreateShift "(string \<times> string) list"
  | UpdateShift string "(string \<times> string) list"
  | DeleteShift string
  | AssignShift string string string "string option"
  | GetEmployeeShift string

fun call :: "('n, 'd) server \<Rightarrow> 'n api_call \<Rightarrow> 'n world \<Rightarrow> (js_error + 'd) \<times> 'n world" where
  "call srv (CheckIn latitude longitude imageUri) = checkIn srv latitude longitude imageUri"
| "call srv (CheckOut latitude longitude imageUri) = checkOut srv latitude longitude imageUri"
| "call srv GetStatus = getStatus srv"
| "call srv (GetMyAttendance page limit) = getMyAttendance srv page limit"
| "call srv GetProfile = getProfile srv"
| "call srv (RegisterEmployee employeeData imageUri) = registerEmployee srv employeeData imageUri"
| "call srv (GetAttendance date employeeId page limit) = getAttendance srv date employeeId page limit"
| "call srv (GetEmployees page limit) = getEmployees srv page limit"
| "call srv (GetAnalytics startDate endDate) = getAnalytics srv startDate endDate"
| "call srv (UpdateEmployeeStatus employeeId isActive) = updateEmployeeStatus srv employeeId isActive"
| "call srv GetSettings = getSettings srv"
| "call srv (UpdateSettings settings) = updateSettings srv settings"
| "call srv (DeleteEmployee employeeId) = deleteEmployee srv employeeId"
| "call srv GetShifts = getShifts srv"
| "call srv (CreateShift shiftData) = createShift srv shiftData"
| "call srv (UpdateShift shiftId shiftData) = updateShift srv shiftId shiftData"
| "call srv (DeleteShift shiftId) = deleteShift srv shiftId"
| "call srv (AssignShift employeeId shiftId effectiveFrom effectiveTo) =
     assignShift srv employeeId shiftId effectiveFrom effectiveTo"
| "call srv (GetEmployeeShift employeeId) = getEmployeeShift srv employeeId"

section \<open>Screens: shared effects\<close>

text \<open>
  Besides its React state, a screen acts on the world and raises alerts
  (\<open>Alert.alert(title, message)\<close>). The two success messages are template literals over
  the server's confirmation, formatted by the platform; they are kept as the
  confirmation itself.
\<close>

record 'n check_result =
  time :: string
  validation :: string  \<comment> \<open>\<open>result.location.validation\<close>\<close>
  confidence :: 'n

record attendance_status =
  checked_in :: bool
  checked_out :: bool

datatype 'n home_json =
    StatusObj attendance_status
  | ResultObj "'n check_result"

datatype 'n message_text =
    Text string
  | CheckedInAt "'n check_result"
  | CheckedOutAt "'n check_result"

datatype 'n alert = Alert string "'n message_text"

record 'n app =
  world :: "'n world"
  alerts :: "'n alert list"

definition check_mark :: string where
  \<comment> \<open>the character U+2713, in UTF-8\<close>
  "check_mark = [CHR 0xE2, CHR 0x9C, CHR 0x93]"

definition type_error :: js_error where
  \<comment> \<open>reading \<open>result.location.validation\<close> of an object without \<open>location\<close>\<close>
  "type_error = Error ''undefined is not an object''"

section \<open>Employee home screen\<close>

record 'n device =
  permission :: "js_error + string"  \<comment> \<open>\<open>Location.requestForegroundPermissionsAsync()\<close>: its \<open>status\<close>\<close>
  position :: "js_error + 'n \<times> 'n"  \<comment> \<open>\<open>Location.getCurrentPositionAsync\<close>: latitude, longitude\<close>

record 'n home_state = "'n app" +
  status :: "'n home_json option"
  loading :: bool
  capturing :: bool
  processing :: bool
  refreshing :: bool

definition home_initial :: "'n world \<Rightarrow> 'n home_state" where
  "home_initial w =
     \<lparr>world = w, alerts = [], status = None, loading = True, capturing = False,
      processing = False, refreshing = False\<rparr>"

definition status_checked_in :: "'n home_json option \<Rightarrow> bool" where
  \<comment> \<open>\<open>status?.checked_in\<close>, as a condition\<close>
  "status_checked_in st = (case st of Some (StatusObj a) \<Rightarrow> checked_in a | _ \<Rightarrow> False)"

definition loadStatus :: "('n, 'n home_json) server \<Rightarrow> 'n home_state \<Rightarrow> 'n home_state" where
  "loadStatus srv s =
     (case getStatus srv (world s) of
        (Inr data, w) \<Rightarrow>
          s\<lparr>world := w, status := Some data, loading := False, refreshing := False\<rparr>
      | (Inl error, w) \<Rightarrow>
          s\<lparr>world := w, alerts := alerts s @ [Alert ''Error'' (Text (message error))],
            loading := False, refreshing := False\<rparr>)"

text \<open>
  A handler runs to its end before the next event is looked at. \<open>loadStatus()\<close> is
  called without \<open>await\<close> at the end of the \<open>try\<close> block; its request and its state
  updates are placed there.
\<close>

definition handleCheckIn :: "('n, 'n home_json) server \<Rightarrow> 'n device \<Rightarrow> string \<Rightarrow> 'n home_state \<Rightarrow> 'n home_state" where
  "handleCheckIn srv dev imageUri s =
     (let s1 = s\<lparr>capturing := False, processing := True\<rparr>;
          failed = (\<lambda>error st. st\<lparr>alerts := alerts st @ [Alert ''Check-In Failed'' (Text (message error))]\<rparr>);
          s2 = (case permission dev of
                  Inl error \<Rightarrow> failed error s1
                | Inr granted \<Rightarrow>
                    if granted \<noteq> ''granted''
                    then failed (Error ''Location permission is required for attendance'') s1
                    else (case position dev of
                            Inl error \<Rightarrow> failed error s1
                          | Inr (latitude, longitude) \<Rightarrow>
                              (case checkIn srv latitude longitude imageUri (world s1) of
                                 (Inl error, w) \<Rightarrow> failed error (s1\<lparr>world := w\<rparr>)
                               | (Inr (StatusObj a), w) \<Rightarrow> failed type_error (s1\<lparr>world := w\<rparr>)
                               | (Inr (ResultObj result), w) \<Rightarrow>
                                   loadStatus srv
                                     (s1\<lparr>world := w,
                                         alerts := alerts s1 @ [Alert (''Success! '' @ check_mark) (CheckedInAt result)]\<rparr>))))
      in s2\<lparr>processing := False\<rparr>)"

definition handleCheckOut :: "('n, 'n home_json) server \<Rightarrow> 'n device \<Rightarrow> string \<Rightarrow> 'n home_state \<Rightarrow> 'n home_state" where
  "handleCheckOut srv dev imageUri s =
     (let s1 = s\<lparr>capturing := False, processing := True\<rparr>;
          failed = (\<lambda>error st. st\<lparr>alerts := alerts st @ [Alert ''Check-Out Failed'' (Text (message error))]\<rparr>);
          s2 = (case permission dev of
                  Inl error \<Rightarrow> failed error s1
                | Inr granted \<Rightarrow>
                    if granted \<noteq> ''granted''
                    then failed (Error ''Location permission is required for attendance'') s1
                    else (case position dev of
                            Inl error \<Rightarrow> failed error s1
                          | Inr (latitude, longitude) \<Rightarrow>
                              (case checkOut srv latitude longitude imageUri (world s1) of
                                 (Inl error, w) \<Rightarrow> failed error (s1\<lparr>world := w\<rparr>)
                               | (Inr (StatusObj a), w) \<Rightarrow> failed type_error (s1\<lparr>world := w\<rparr>)
                               | (Inr (ResultObj result), w) \<Rightarrow>
                                   loadStatus srv
                                     (s1\<lparr>world := w,
                                         alerts := alerts s1 @ [Alert (''Success! '' @ check_mark) (CheckedOutAt result)]\<rparr>))))
      in s2\<lparr>processing := False\<rparr>)"

definition onCapture :: "('n, 'n home_json) server \<Rightarrow> 'n device \<Rightarrow> 'n home_state
    \<Rightarrow> string \<Rightarrow> 'n home_state \<Rightarrow> 'n home_state" where
  \<comment> \<open>the prop \<open>onCapture={status?.checked_in ? handleCheckOut : handleCheckIn}\<close> of the render\<close>
  "onCapture srv dev s =
     (if status_checked_in (status s) then handleCheckOut srv dev else handleCheckIn srv dev)"

definition capture :: "('n, 'n home_json) server \<Rightarrow> 'n device \<Rightarrow> string \<Rightarrow> 'n home_state \<Rightarrow> 'n home_state" where
  \<comment> \<open>the camera hands over a picture; the camera is rendered only when the screen is
      not loading and \<open>capturing\<close> is set\<close>
  "capture srv dev imageUri s =
     (if \<not> loading s \<and> capturing s then onCapture srv dev s imageUri s else s)"

definition issued :: "'n world \<Rightarrow> 'n world \<Rightarrow> 'n request list" where
  \<comment> \<open>the requests sent between an earlier and a later world\<close>
  "issued w w1 = drop (length (sent w)) (sent w1)"

section \<open>Password validation of the registration screen\<close>

definition validatePassword :: "utf16 \<Rightarrow> string option" where
  "validatePassword pwd =
     (if length pwd < 8 then Some ''Password must be at least 8 characters''
      else if \<not> test_range CHR ''A'' CHR ''Z'' pwd then Some ''Password must contain uppercase letter''
      else if \<not> test_range CHR ''a'' CHR ''z'' pwd then Some ''Password must contain lowercase letter''
      else if \<not> test_range CHR ''0'' CHR ''9'' pwd then Some ''Password must contain a digit''
      else None)"

definition is_upper :: "16 word \<Rightarrow> bool" where
  \<comment> \<open>the code units of \<open>A\<close> to \<open>Z\<close>\<close>
  "is_upper u = (65 \<le> unat u \<and> unat u \<le> 90)"

definition is_lower :: "16 word \<Rightarrow> bool" where
  \<comment> \<open>the code units of \<open>a\<close> to \<open>z\<close>\<close>
  "is_lower u = (97 \<le> unat u \<and> unat u \<le> 122)"

definition is_digit :: "16 word \<Rightarrow> bool" where
  \<comment> \<open>the code units of \<open>0\<close> to \<open>9\<close>\<close>
  "is_digit u = (48 \<le> unat u \<and> unat u \<le> 57)"

section \<open>Admin registration screen\<close>

record 'n register_state = "'n app" +
  employeeId :: string
  name :: string
  email :: string
  password :: utf16
  role :: string
  capturedImage :: "string option"
  capturing :: bool
  loading :: bool
  showPassword :: bool

definition handleCapture :: "string \<Rightarrow> 'n register_state \<Rightarrow> 'n register_state" where
  "handleCapture u s = s\<lparr>capturedImage := Some u, capturing := False\<rparr>"

text \<open>
  The image handed to \<open>registerEmployee\<close> is \<open>capturedImage\<close>, which the first check
  has found truthy. The button of the success alert, which clears the form, is a later
  event and is not part of the handler.
\<close>

definition handleRegister :: "('n, 'd) server \<Rightarrow> 'n register_state \<Rightarrow> 'n register_state" where
  "handleRegister srv s =
     (if employeeId s = [] \<or> name s = [] \<or> email s = [] \<or> password s = []
         \<or> \<not> truthy (capturedImage s)
      then s\<lparr>alerts := alerts s @ [Alert ''Error'' (Text ''Please fill all fields and capture face image'')]\<rparr>
      else
        (case validatePassword (password s) of
           Some passwordError \<Rightarrow>
             s\<lparr>alerts := alerts s @ [Alert ''Invalid Password'' (Text passwordError)]\<rparr>
         | None \<Rightarrow>
             (let s1 = s\<lparr>loading := True\<rparr>;
                  s2 = (case registerEmployee srv
                               \<lparr>employee_id = employeeId s, employee_data.name = name s,
                                employee_data.email = email s, employee_data.password = password s,
                                employee_data.role = role s\<rparr>
                               (js_string (capturedImage s)) (world s1) of
                          (Inr data, w) \<Rightarrow>
                            s1\<lparr>world := w,
                               alerts := alerts s1 @ [Alert ''Success'' (Text ''Employee registered successfully!'')]\<rparr>
                        | (Inl error, w) \<Rightarrow>
                            s1\<lparr>world := w,
                               alerts := alerts s1 @ [Alert ''Registration Failed'' (Text (message error))]\<rparr>)
              in s2\<lparr>loading := False\<rparr>)))"

section \<open>Employee history screen\<close>

text \<open>
  The server's page of the attendance list: \<open>data.records\<close> and \<open>data.pagination\<close>, the
  latter with the fields \<open>page\<close>, \<open>pages\<close> and \<open>total\<close>.
\<close>

record pagination_info =
  page :: nat
  pages :: nat
  total :: nat

type_synonym 'r page_data = "'r list \<times> pagination_info"

text \<open>
  \<open>loadRecords\<close> is asynchronous: an invocation reads the \<open>page\<close> of the render that
  created it, suspends at \<open>await ApiService.getMyAttendance(page, 30)\<close> and runs its
  state updates when the response arrives. \<open>pending\<close> holds the suspended invocations,
  each with the page it closed over, in the order they were started. The exchange with
  the server is placed at the moment an invocation resumes; responses may arrive in any
  order.
\<close>

record ('n, 'r) history_state = "'n app" +
  records :: "'r list"
  pagination :: "pagination_info option"
  loading :: bool
  refreshing :: bool
  page :: nat
  pending :: "nat list"

definition loadRecords_start :: "nat \<Rightarrow> ('n, 'r) history_state \<Rightarrow> ('n, 'r) history_state" where
  "loadRecords_start p s = s\<lparr>pending := pending s @ [p]\<rparr>"

definition loadRecords_resume :: "('n, 'r page_data) server \<Rightarrow> nat \<Rightarrow> ('n, 'r) history_state
    \<Rightarrow> ('n, 'r) history_state" where
  "loadRecords_resume srv i s =
     (if i < length (pending s)
      then
        (let s1 = s\<lparr>pending := take i (pending s) @ drop (Suc i) (pending s)\<rparr>
         in case getMyAttendance srv (pending s ! i) 30 (world s1) of
              (Inr data, w) \<Rightarrow>
                s1\<lparr>world := w, records := fst data, pagination := Some (snd data),
                   loading := False, refreshing := False\<rparr>
            | (Inl error, w) \<Rightarrow>
                s1\<lparr>world := w, alerts := alerts s1 @ [Alert ''Error'' (Text (message error))],
                   loading := False, refreshing := False\<rparr>)
      else s)"

definition history_initial :: "'n world \<Rightarrow> ('n, 'r) history_state" where
  \<comment> \<open>the first render, after its effect has started \<open>loadRecords\<close>\<close>
  "history_initial w =
     \<lparr>world = w, alerts = [], records = [], pagination = None, loading = True,
      refreshing = False, page = 1, pending = [1]\<rparr>"

definition setPage :: "nat \<Rightarrow> ('n, 'r) history_state \<Rightarrow> ('n, 'r) history_state" where
  \<comment> \<open>\<open>setPage(p)\<close> and the render that follows: \<open>useEffect(() => { loadRecords(); }, [page])\<close>
      runs again when \<open>page\<close> has changed\<close>
  "setPage p s = (if p = page s then s else loadRecords_start p (s\<lparr>page := p\<rparr>))"

definition onRefresh :: "('n, 'r) history_state \<Rightarrow> ('n, 'r) history_state" where
  \<comment> \<open>\<open>setRefreshing(true); setPage(1); loadRecords();\<close> where \<open>loadRecords\<close> is the function
      of the current render, so it reads the current \<open>page\<close>; the render caused by
      \<open>setPage(1)\<close> follows the handler\<close>
  "onRefresh s = setPage 1 (loadRecords_start (page s) (s\<lparr>refreshing := True\<rparr>))"

definition loadMore :: "('n, 'r) history_state \<Rightarrow> ('n, 'r) history_state" where
  "loadMore s =
     (case pagination s of
        None \<Rightarrow> s
      | Some pg \<Rightarrow> if page s < pages pg then setPage (page s + 1) s else s)"

datatype event = EndReached | PullToRefresh | Response nat

fun step :: "('n, 'r page_data) server \<Rightarrow> ('n, 'r) history_state \<Rightarrow> event \<Rightarrow> ('n, 'r) history_state" where
  \<comment> \<open>the list, with its two gestures, is rendered only when \<open>loading\<close> is false\<close>
  "step srv s EndReached = (if loading s then s else loadMore s)"
| "step srv s PullToRefresh = (if loading s then s else onRefresh s)"
| "step srv s (Response i) = loadRecords_resume srv i s"

definition run :: "('n, 'r page_data) server \<Rightarrow> event list \<Rightarrow> ('n, 'r) history_state \<Rightarrow> ('n, 'r) history_state" where
  "run srv evs s = foldl (step srv) s evs"

section \<open>Reading requests\<close>

definition is_file :: "'n form_value \<Rightarrow> bool" where
  "is_file v = (case v of File u t n \<Rightarrow> True | _ \<Rightarrow> False)"

definition file_parts :: "(string \<times> 'n form_value) list \<Rightarrow> (string \<times> 'n form_value) list" where
  "file_parts parts = filter (\<lambda>(k, v). is_file v) parts"

definition fields_named :: "string \<Rightarrow> (string \<times> 'n form_value) list \<Rightarrow> 'n form_value list" where
  "fields_named k parts = map snd (filter (\<lambda>(k1, v). k1 = k) parts)"

definition header :: "string \<Rightarrow> 'n request \<Rightarrow> string option" where
  "header k req = map_of (headers req) k"

definition to_endpoint :: "string \<Rightarrow> 'n request list \<Rightarrow> 'n request list" where
  "to_endpoint path reqs = filter (\<lambda>r. url r = API_URL @ path) reqs"

definition check_request :: "string \<Rightarrow> string option \<Rightarrow> 'n \<Rightarrow> 'n \<Rightarrow> string \<Rightarrow> 'n request" where
  "check_request path token la lo u =
     \<lparr>url = API_URL @ path, http_method = ''POST'', headers = bearer token,
      body = FormData ([(''latitude'', Num la), (''longitude'', Num lo)] @ face_image_part u)\<rparr>"

section \<open>Example worlds, devices and servers\<close>

definition answering :: "'d response \<Rightarrow> ('n, 'd) server" where
  \<comment> \<open>a backend that gives the same response to every request\<close>
  "answering r = (\<lambda>history req. Inr r)"

definition no_session :: "int world" where
  "no_session = \<lparr>storage = Map.empty, sent = []\<rparr>"

definition a_session :: "int world" where
  "a_session = \<lparr>storage = [''token'' \<mapsto> ''t0k3n'', ''user'' \<mapsto> ''{}''], sent = []\<rparr>"

definition an_employee :: employee_data where
  "an_employee = \<lparr>employee_id = ''E7'', employee_data.name = ''Ada'', employee_data.email = ''ada@example.org'',
     employee_data.password = units ''Valid1Pass'', employee_data.role = ''employee''\<rparr>"

definition accepted :: "string response" where
  "accepted = \<lparr>status_code = 200, json_body = Json None ''done''\<rparr>"

definition unauthorized :: "string response" where
  "unauthorized = \<lparr>status_code = 401, json_body = Json (Some ''Token expired'') ''none''\<rparr>"

definition denied_device :: "int device" where
  "denied_device = \<lparr>permission = Inr ''denied'', position = Inr (6, 3)\<rparr>"

definition granted_device :: "int device" where
  "granted_device = \<lparr>permission = Inr ''granted'', position = Inr (6, 3)\<rparr>"

definition confirmation :: "int check_result" where
  "confirmation = \<lparr>time = ''2024-05-06T09:00:00'', validation = ''Within office radius'', confidence = 1\<rparr>"

definition home_server :: "(int, int home_json) server" where
  "home_server history req =
     (if url req = API_URL @ ''/api/employee/status''
      then Inr \<lparr>status_code = 200, json_body = Json None
             (StatusObj \<lparr>checked_in = list_ex (\<lambda>r. url r = API_URL @ ''/api/attendance/check-in'') history,
                         checked_out = list_ex (\<lambda>r. url r = API_URL @ ''/api/attendance/check-out'') history\<rparr>)\<rparr>
      else Inr \<lparr>status_code = 200, json_body = Json None (ResultObj confirmation)\<rparr>)"

definition camera_open :: "int home_json option \<Rightarrow> int home_state" where
  "camera_open st =
     \<lparr>world = a_session, alerts = [], status = st, home_state.loading = False,
      home_state.capturing = True, processing = False, home_state.refreshing = False\<rparr>"

definition filled_form :: "string option \<Rightarrow> int register_state" where
  "filled_form img =
     \<lparr>world = a_session, alerts = [], employeeId = ''E7'', name = ''Ada'', email = ''ada@example.org'',
      password = units ''Valid1Pass'', role = ''employee'', capturedImage = img,
      register_state.capturing = False, register_state.loading = False, showPassword = False\<rparr>"

definition list_server :: "(int, string page_data) server" where
  "list_server history req =
     (if url req = API_URL @ ''/api/employee/my-attendance?page=1&limit=30''
      then Inr \<lparr>status_code = 200,
               json_body = Json None ([''mon''], \<lparr>pagination_info.page = 1, pages = 3, total = 3\<rparr>)\<rparr>
      else if url req = API_URL @ ''/api/employee/my-attendance?page=2&limit=30''
      then Inr \<lparr>status_code = 200,
               json_body = Json None ([''tue''], \<lparr>pagination_info.page = 2, pages = 3, total = 3\<rparr>)\<rparr>
      else if url req = API_URL @ ''/api/employee/my-attendance?page=3&limit=30''
      then Inr \<lparr>status_code = 200,
               json_body = Json None ([''wed''], \<lparr>pagination_info.page = 3, pages = 3, total = 3\<rparr>)\<rparr>
      else Inr \<lparr>status_code = 404,
               json_body = Json (Some ''Not Found'') ([], \<lparr>pagination_info.page = 0, pages = 0, total = 0\<rparr>)\<rparr>)"

definition page_one :: "(int, string) history_state" where
  \<comment> \<open>the screen after its first page has arrived\<close>
  "page_one = run list_server [Response 0] (history_initial a_session)"

definition page_three :: "(int, string) history_state" where
  \<comment> \<open>the screen after the end of the list was reached twice\<close>
  "page_three = run list_server [EndReached, Response 0, EndReached, Response 0] page_one"

section \<open>Theorems\<close>

subsection \<open>The helpers\<close>

lemma startsWith_iff: "startsWith s p = (\<exists>r. s = p @ r)"
proof
  assume "startsWith s p"
  then have "s = p @ drop (length p) s"
    by (metis append_take_drop_id startsWith_def)
  then show "\<exists>r. s = p @ r" ..
next
  assume "\<exists>r. s = p @ r"
  then show "startsWith s p" by (auto simp: startsWith_def)
qed

lemma truthy_iff: "truthy v = (\<exists>s. v = Some s \<and> s \<noteq> [])"
  by (cases v) (simp_all add: truthy_def)

lemma length_units: "length (units s) = length s"
  by (simp add: units_def)

lemma test_range_upper: "test_range CHR ''A'' CHR ''Z'' s = (\<exists>c \<in> set s. is_upper c)"
  by (simp add: test_range_def is_upper_def list_ex_iff)

lemma test_range_lower: "test_range CHR ''a'' CHR ''z'' s = (\<exists>c \<in> set s. is_lower c)"
  by (simp add: test_range_def is_lower_def list_ex_iff)

lemma test_range_digit: "test_range CHR ''0'' CHR ''9'' s = (\<exists>c \<in> set s. is_digit c)"
  by (simp add: test_range_def is_digit_def list_ex_iff)


subsection \<open>The API service\<close>

lemmas api_defs = checkIn_def checkOut_def getStatus_def getMyAttendance_def getProfile_def
  registerEmployee_def getAttendance_def getEmployees_def getAnalytics_def updateEmployeeStatus_def
  getSettings_def updateSettings_def deleteEmployee_def getShifts_def createShift_def updateShift_def
  deleteShift_def assignShift_def getEmployeeShift_def get_json_def send_detail_def

lemma call_sends_one:
  "\<exists>req. sent (snd (call srv c w)) = sent w @ [req] \<and> storage (snd (call srv c w)) = storage w
      \<and> header ''Authorization'' req = Some (''Bearer '' @ js_string (getToken w))"
  by (cases c)
     (simp_all add: api_defs fetch_def bearer_def header_def Let_def split: prod.splits sum.splits)

lemma call_accepted:
  assumes "sent (snd (call srv c w)) = sent w @ [req]"
    and "srv (sent w) req = Inr resp" and "ok resp" and "json_body resp = Json detail d"
  shows "fst (call srv c w) = Inr d"
  using assms
  by (cases c)
     (simp_all add: api_defs fetch_def read_json_def Let_def split: prod.splits sum.splits)

lemma call_refused:
  assumes "sent (snd (call srv c w)) = sent w @ [req]"
    and "srv (sent w) req = Inr r" and "\<not> ok r" and "json_body r = Json detail d"
    and "\<not> ok r1" and "json_body r1 = json_body r"
  shows "(\<exists>m. fst (call srv c w) = Inl (Error m))
     \<and> fst (call srv c w) = fst (call (answering r1) c w)"
  using assms
  by (cases c)
     (auto simp add: api_defs fetch_def read_json_def answering_def Let_def
        split: prod.splits sum.splits json.splits)

text \<open>
  C1, as stated, fails. With no token in the store, \<open>checkIn\<close> hands its request to
  \<open>fetch\<close>, with the header \<open>Authorization: Bearer null\<close>, and returns what the server
  answers; no method of \<open>ApiService\<close> looks at the token before sending.
\<close>

theorem no_token_counterexample:
  "getToken no_session = None
   \<and> fst (call (answering accepted) (CheckIn 6 3 ''file:///face.jpg'') no_session) = Inr ''done''
   \<and> sent (snd (call (answering accepted) (CheckIn 6 3 ''file:///face.jpg'') no_session)) =
       [\<lparr>url = ''https://attappv2.duckdns.org/api/attendance/check-in'', http_method = ''POST'',
         headers = [(''Authorization'', ''Bearer null'')],
         body = FormData [(''latitude'', Num 6), (''longitude'', Num 3),
                          (''face_image'', File ''file:///face.jpg'' ''image/jpeg'' ''face.jpg'')]\<rparr>]"
  by (simp add: no_session_def getToken_def checkIn_def fetch_def answering_def accepted_def
        read_json_def ok_def bearer_def js_string_def face_image_part_def startsWith_def
        API_URL_def Let_def)

text \<open>
  C1, amended. For every operation of \<open>ApiService\<close>, when no token is in the store the
  operation does not fail locally: it sends exactly one request, whose \<open>Authorization\<close>
  header is \<open>Bearer null\<close>, and when the server accepts that request the operation
  returns the server's data.
\<close>

theorem no_token_call_is_sent:
  assumes "getToken w = None"
  shows "\<exists>req. sent (snd (call srv c w)) = sent w @ [req]
      \<and> header ''Authorization'' req = Some ''Bearer null''
      \<and> (\<forall>resp detail d. srv (sent w) req = Inr resp \<and> ok resp \<and> json_body resp = Json detail d
            \<longrightarrow> fst (call srv c w) = Inr d)"
proof -
  obtain req where r: "sent (snd (call srv c w)) = sent w @ [req]"
      "header ''Authorization'' req = Some (''Bearer '' @ js_string (getToken w))"
    using call_sends_one by blast
  have "header ''Authorization'' req = Some ''Bearer null''"
    using r(2) assms by (simp add: js_string_def)
  moreover have "\<forall>resp detail d. srv (sent w) req = Inr resp \<and> ok resp \<and> json_body resp = Json detail d
            \<longrightarrow> fst (call srv c w) = Inr d"
    using call_accepted [OF r(1)] by blast
  ultimately show ?thesis using r(1) by blast
qed

theorem no_token_call_is_sent_witness:
  "getToken no_session = None
   \<and> (\<exists>req. sent (snd (call (answering accepted) GetStatus no_session)) = [req]
        \<and> header ''Authorization'' req = Some ''Bearer null'')
   \<and> fst (call (answering accepted) GetStatus no_session) = Inr ''done''"
proof -
  have h: "getToken no_session = None" by (simp add: getToken_def no_session_def)
  have s: "sent no_session = []" by (simp add: no_session_def)
  from no_token_call_is_sent [OF h, of "answering accepted" GetStatus]
  show ?thesis using h unfolding s by (auto simp: answering_def accepted_def ok_def)
qed

text \<open>
  C2. The three submissions that carry a captured image are \<open>checkIn\<close>, \<open>checkOut\<close> and
  \<open>registerEmployee\<close>. Each sends one request with a multipart body. When the image
  reference starts with \<open>data:image/\<close>, the body has the text field
  \<open>face_image_base64\<close> holding the reference, no file part and no entry named
  \<open>face_image\<close>; otherwise it has no \<open>face_image_base64\<close> field and exactly one file
  part, named \<open>face_image\<close>, with the reference as \<open>uri\<close>, type \<open>image/jpeg\<close> and
  name \<open>face.jpg\<close>.
\<close>

theorem image_representation:
  assumes "c \<in> {CheckIn latitude longitude imageUri, CheckOut latitude longitude imageUri,
                 RegisterEmployee employeeData imageUri}"
  shows "\<exists>req parts. sent (snd (call srv c w)) = sent w @ [req] \<and> body req = FormData parts
     \<and> (if startsWith imageUri ''data:image/''
        then fields_named ''face_image_base64'' parts = [Str imageUri]
             \<and> file_parts parts = [] \<and> fields_named ''face_image'' parts = []
        else fields_named ''face_image_base64'' parts = []
             \<and> file_parts parts = [(''face_image'', File imageUri ''image/jpeg'' ''face.jpg'')]
             \<and> fields_named ''face_image'' parts = [File imageUri ''image/jpeg'' ''face.jpg''])"
proof -
  from assms consider "c = CheckIn latitude longitude imageUri"
    | "c = CheckOut latitude longitude imageUri" | "c = RegisterEmployee employeeData imageUri"
    by auto
  then show ?thesis
  proof cases
    case 1
    show ?thesis unfolding 1
      by (simp add: checkIn_def fetch_def Let_def fields_named_def file_parts_def is_file_def
            face_image_part_def)
  next
    case 2
    show ?thesis unfolding 2
      by (simp add: checkOut_def fetch_def Let_def fields_named_def file_parts_def is_file_def
            face_image_part_def)
  next
    case 3
    show ?thesis unfolding 3
      by (simp add: registerEmployee_def fetch_def Let_def fields_named_def file_parts_def
            is_file_def face_image_part_def split: sum.splits)
  qed
qed

theorem image_representation_witness:
  "(\<exists>req parts. sent (snd (call (answering accepted)
          (RegisterEmployee an_employee ''data:image/jpeg;base64,QUJD'') no_session)) = [req]
      \<and> body req = FormData parts
      \<and> fields_named ''face_image_base64'' parts = [Str ''data:image/jpeg;base64,QUJD'']
      \<and> file_parts parts = [] \<and> fields_named ''face_image'' parts = [])
   \<and> (\<exists>req parts. sent (snd (call (answering accepted)
          (CheckOut 6 3 ''file:///cache/face.jpg'') no_session)) = [req]
      \<and> body req = FormData parts
      \<and> fields_named ''face_image_base64'' parts = []
      \<and> file_parts parts = [(''face_image'', File ''file:///cache/face.jpg'' ''image/jpeg'' ''face.jpg'')]
      \<and> fields_named ''face_image'' parts = [File ''file:///cache/face.jpg'' ''image/jpeg'' ''face.jpg''])"
proof -
  have a: "RegisterEmployee an_employee ''data:image/jpeg;base64,QUJD''
      \<in> {CheckIn (6::int) 3 ''data:image/jpeg;base64,QUJD'', CheckOut 6 3 ''data:image/jpeg;base64,QUJD'',
          RegisterEmployee an_employee ''data:image/jpeg;base64,QUJD''}" by simp
  have b: "CheckOut 6 3 ''file:///cache/face.jpg''
      \<in> {CheckIn (6::int) 3 ''file:///cache/face.jpg'', CheckOut 6 3 ''file:///cache/face.jpg'',
          RegisterEmployee an_employee ''file:///cache/face.jpg''}" by simp
  have s: "sent no_session = []" by (simp add: no_session_def)
  have p: "startsWith ''data:image/jpeg;base64,QUJD'' ''data:image/''"
    and q: "\<not> startsWith ''file:///cache/face.jpg'' ''data:image/''"
    by (simp_all add: startsWith_def)
  from image_representation [OF a, of "answering accepted" no_session]
       image_representation [OF b, of "answering accepted" no_session]
  show ?thesis unfolding s using p q by simp
qed

text \<open>
  C3, as stated, fails. With a session in the store and a server that answers 401,
  \<open>getStatus\<close> throws the fixed message \<open>Failed to fetch status\<close> and the token and the
  identity are still in the store afterwards.
\<close>

theorem unauthorized_counterexample:
  "fst (call (answering unauthorized) GetStatus a_session) = Inl (Error ''Failed to fetch status'')
   \<and> storage (snd (call (answering unauthorized) GetStatus a_session)) ''token'' = Some ''t0k3n''
   \<and> storage (snd (call (answering unauthorized) GetStatus a_session)) ''user'' = Some ''{}''"
  by (simp add: a_session_def getStatus_def get_json_def fetch_def answering_def unauthorized_def
        read_json_def ok_def Let_def)

text \<open>
  C3, amended. For every operation of \<open>ApiService\<close>, a 401 response with a JSON body
  leaves the persisted session as it was and makes the operation throw an \<open>Error\<close>
  with a message; the thrown error is the one any other response that is not ok, with
  the same body, would give. Status 401 is not told apart.
\<close>

theorem unauthorized_is_generic_failure:
  assumes "sent (snd (call srv c w)) = sent w @ [req]"
    and "srv (sent w) req = Inr r" and "status_code r = 401" and "json_body r = Json detail d"
    and "\<not> ok r1" and "json_body r1 = json_body r"
  shows "storage (snd (call srv c w)) = storage w
     \<and> (\<exists>m. fst (call srv c w) = Inl (Error m))
     \<and> fst (call srv c w) = fst (call (answering r1) c w)"
proof -
  have "\<not> ok r" using assms(3) by (simp add: ok_def)
  from call_refused [OF assms(1,2) this assms(4,5,6)]
  have a: "\<exists>m. fst (call srv c w) = Inl (Error m)"
    and b: "fst (call srv c w) = fst (call (answering r1) c w)" by blast+
  have "storage (snd (call srv c w)) = storage w"
    using call_sends_one [of srv c w] by blast
  with a b show ?thesis by blast
qed

theorem unauthorized_is_generic_failure_witness:
  "storage (snd (call (answering unauthorized) (CheckIn 6 3 ''file:///cache/face.jpg'') a_session))
     = storage a_session
   \<and> (\<exists>m. fst (call (answering unauthorized) (CheckIn 6 3 ''file:///cache/face.jpg'') a_session)
          = Inl (Error m))
   \<and> fst (call (answering unauthorized) (CheckIn 6 3 ''file:///cache/face.jpg'') a_session)
     = fst (call (answering (unauthorized\<lparr>status_code := 500\<rparr>))
              (CheckIn 6 3 ''file:///cache/face.jpg'') a_session)"
proof -
  obtain req where req: "sent (snd (call (answering unauthorized)
      (CheckIn 6 3 ''file:///cache/face.jpg'') a_session)) = sent a_session @ [req]"
    using call_sends_one by blast
  have 1: "answering unauthorized (sent a_session) req = Inr unauthorized"
    by (simp add: answering_def)
  have 2: "status_code unauthorized = 401"
    "json_body unauthorized = Json (Some ''Token expired'') ''none''"
    "\<not> ok (unauthorized\<lparr>status_code := 500\<rparr>)"
    "json_body (unauthorized\<lparr>status_code := 500\<rparr>) = json_body unauthorized"
    by (simp_all add: unauthorized_def ok_def)
  from unauthorized_is_generic_failure [OF req 1 2]
  show ?thesis by blast
qed

text \<open>
  C5, as stated, fails. With no token in the store the header is not omitted:
  \<open>getStatus\<close> sends \<open>Authorization: Bearer null\<close>.
\<close>

theorem bearer_null_counterexample:
  "getToken no_session = None
   \<and> map headers (sent (snd (call (answering accepted) GetStatus no_session)))
       = [[(''Authorization'', ''Bearer null'')]]"
  by (simp add: no_session_def getToken_def getStatus_def get_json_def fetch_def bearer_def
        js_string_def Let_def)

text \<open>
  C5, amended. Every operation of \<open>ApiService\<close> sends one request, and that request
  always has an \<open>Authorization\<close> header: \<open>Bearer\<close>, a space and the stored token when a
  token is present, and \<open>Bearer null\<close> when none is. The login request, the only one
  built outside \<open>ApiService\<close>, has no \<open>Authorization\<close> header.
\<close>

theorem authorization_header_always_set:
  "(\<exists>req. sent (snd (call srv c w)) = sent w @ [req]
      \<and> header ''Authorization'' req
          = Some (''Bearer '' @ (case getToken w of Some token \<Rightarrow> token | None \<Rightarrow> ''null'')))
   \<and> (\<exists>req. sent (snd (login srv1 e p w)) = sent w @ [req] \<and> header ''Authorization'' req = None)"
proof -
  have "\<exists>req. sent (snd (login srv1 e p w)) = sent w @ [req] \<and> header ''Authorization'' req = None"
    by (simp add: login_def fetch_def header_def Let_def split: prod.splits sum.splits)
  then show ?thesis using call_sends_one [of srv c w] by (auto simp: js_string_def)
qed

theorem authorization_header_always_set_witness:
  "\<exists>req. sent (snd (call (answering accepted) GetProfile a_session)) = [req]
        \<and> header ''Authorization'' req = Some ''Bearer t0k3n''"
  using authorization_header_always_set [of "answering accepted" GetProfile a_session]
  by (simp add: a_session_def getToken_def)

subsection \<open>The employee home screen\<close>

lemma checkIn_sent:
  "sent (snd (checkIn srv la lo u w)) = sent w @
     [\<lparr>url = API_URL @ ''/api/attendance/check-in'', http_method = ''POST'',
       headers = bearer (getToken w),
       body = FormData ([(''latitude'', Num la), (''longitude'', Num lo)] @ face_image_part u)\<rparr>]"
  by (simp add: checkIn_def fetch_def Let_def)

lemma checkOut_sent:
  "sent (snd (checkOut srv la lo u w)) = sent w @
     [\<lparr>url = API_URL @ ''/api/attendance/check-out'', http_method = ''POST'',
       headers = bearer (getToken w),
       body = FormData ([(''latitude'', Num la), (''longitude'', Num lo)] @ face_image_part u)\<rparr>]"
  by (simp add: checkOut_def fetch_def Let_def)

lemma checkIn_storage: "storage (snd (checkIn srv la lo u w)) = storage w"
  by (simp add: checkIn_def fetch_def Let_def)

lemma checkOut_storage: "storage (snd (checkOut srv la lo u w)) = storage w"
  by (simp add: checkOut_def fetch_def Let_def)

lemma loadStatus_sent:
  "sent (world (loadStatus srv s)) = sent (world s) @
     [\<lparr>url = API_URL @ ''/api/employee/status'', http_method = ''GET'',
       headers = bearer (getToken (world s)), body = NoBody\<rparr>]"
  by (simp add: loadStatus_def getStatus_def get_json_def fetch_def Let_def split: prod.splits sum.splits)

lemma handleCheckIn_issued:
  "issued (world s) (world (handleCheckIn srv dev u s)) =
     (case permission dev of
        Inl e \<Rightarrow> []
      | Inr g \<Rightarrow> if g \<noteq> ''granted'' then [] else
          (case position dev of
             Inl e \<Rightarrow> []
           | Inr (la, lo) \<Rightarrow>
               check_request ''/api/attendance/check-in'' (getToken (world s)) la lo u
               # (case fst (checkIn srv la lo u (world s)) of
                    Inr (ResultObj r) \<Rightarrow>
                      [\<lparr>url = API_URL @ ''/api/employee/status'', http_method = ''GET'',
                        headers = bearer (getToken (world s)), body = NoBody\<rparr>]
                  | _ \<Rightarrow> [])))"
proof (cases "permission dev")
  case (Inl e)
  then show ?thesis by (simp add: handleCheckIn_def issued_def Let_def)
next
  case (Inr g)
  show ?thesis
  proof (cases "g = ''granted''")
    case False
    with Inr show ?thesis by (simp add: handleCheckIn_def issued_def Let_def)
  next
    case True
    show ?thesis
    proof (cases "position dev")
      case (Inl e)
      with Inr True show ?thesis by (simp add: handleCheckIn_def issued_def Let_def)
    next
      case pos: (Inr ll)
      obtain la lo where ll: "ll = (la, lo)" by (cases ll)
      obtain res w1 where c: "checkIn srv la lo u (world s) = (res, w1)"
        by (cases "checkIn srv la lo u (world s)")
      have w1: "sent w1 = sent (world s) @
         [check_request ''/api/attendance/check-in'' (getToken (world s)) la lo u]"
        and t: "getToken w1 = getToken (world s)"
        using checkIn_sent [of srv la lo u "world s"] checkIn_storage [of srv la lo u "world s"] c
        by (simp_all add: check_request_def getToken_def)
      show ?thesis
        using Inr True pos ll c w1 t
        by (simp add: handleCheckIn_def issued_def Let_def loadStatus_sent
              split: sum.splits home_json.splits)
    qed
  qed
qed

lemma handleCheckOut_issued:
  "issued (world s) (world (handleCheckOut srv dev u s)) =
     (case permission dev of
        Inl e \<Rightarrow> []
      | Inr g \<Rightarrow> if g \<noteq> ''granted'' then [] else
          (case position dev of
             Inl e \<Rightarrow> []
           | Inr (la, lo) \<Rightarrow>
               check_request ''/api/attendance/check-out'' (getToken (world s)) la lo u
               # (case fst (checkOut srv la lo u (world s)) of
                    Inr (ResultObj r) \<Rightarrow>
                      [\<lparr>url = API_URL @ ''/api/employee/status'', http_method = ''GET'',
                        headers = bearer (getToken (world s)), body = NoBody\<rparr>]
                  | _ \<Rightarrow> [])))"
proof (cases "permission dev")
  case (Inl e)
  then show ?thesis by (simp add: handleCheckOut_def issued_def Let_def)
next
  case (Inr g)
  show ?thesis
  proof (cases "g = ''granted''")
    case False
    with Inr show ?thesis by (simp add: handleCheckOut_def issued_def Let_def)
  next
    case True
    show ?thesis
    proof (cases "position dev")
      case (Inl e)
      with Inr True show ?thesis by (simp add: handleCheckOut_def issued_def Let_def)
    next
      case pos: (Inr ll)
      obtain la lo where ll: "ll = (la, lo)" by (cases ll)
      obtain res w1 where c: "checkOut srv la lo u (world s) = (res, w1)"
        by (cases "checkOut srv la lo u (world s)")
      have w1: "sent w1 = sent (world s) @
         [check_request ''/api/attendance/check-out'' (getToken (world s)) la lo u]"
        and t: "getToken w1 = getToken (world s)"
        using checkOut_sent [of srv la lo u "world s"] checkOut_storage [of srv la lo u "world s"] c
        by (simp_all add: check_request_def getToken_def)
      show ?thesis
        using Inr True pos ll c w1 t
        by (simp add: handleCheckOut_def issued_def Let_def loadStatus_sent
              split: sum.splits home_json.splits)
    qed
  qed
qed

lemma to_endpoint_handleCheckIn:
  "to_endpoint ''/api/attendance/check-out'' (issued (world s) (world (handleCheckIn srv dev u s))) = []"
  "to_endpoint ''/api/attendance/check-in'' (issued (world s) (world (handleCheckIn srv dev u s))) =
     (case permission dev of
        Inl e \<Rightarrow> []
      | Inr g \<Rightarrow> if g \<noteq> ''granted'' then [] else
          (case position dev of
             Inl e \<Rightarrow> []
           | Inr (la, lo) \<Rightarrow> [check_request ''/api/attendance/check-in'' (getToken (world s)) la lo u]))"
  unfolding handleCheckIn_issued
  by (simp_all add: to_endpoint_def check_request_def split: sum.splits prod.splits home_json.splits)

lemma to_endpoint_handleCheckOut:
  "to_endpoint ''/api/attendance/check-in'' (issued (world s) (world (handleCheckOut srv dev u s))) = []"
  "to_endpoint ''/api/attendance/check-out'' (issued (world s) (world (handleCheckOut srv dev u s))) =
     (case permission dev of
        Inl e \<Rightarrow> []
      | Inr g \<Rightarrow> if g \<noteq> ''granted'' then [] else
          (case position dev of
             Inl e \<Rightarrow> []
           | Inr (la, lo) \<Rightarrow> [check_request ''/api/attendance/check-out'' (getToken (world s)) la lo u]))"
  unfolding handleCheckOut_issued
  by (simp_all add: to_endpoint_def check_request_def split: sum.splits prod.splits home_json.splits)

lemma issued_same: "issued w w = []"
  by (simp add: issued_def)

text \<open>
  C8. When the request for the location permission is answered with anything but
  \<open>granted\<close>, a check-in or check-out attempt ends at once: the handler raises the
  alert \<open>Check-In Failed\<close> (or \<open>Check-Out Failed\<close>) with the message
  \<open>Location permission is required for attendance\<close>, clears \<open>processing\<close>, and
  leaves the world as it was; no request at all is sent for that attempt.
\<close>

theorem permission_denied_no_request:
  assumes "permission dev = Inr p" and "p \<noteq> ''granted''"
  shows "handleCheckIn srv dev imageUri s
           = s\<lparr>home_state.capturing := False, processing := False,
               alerts := alerts s @ [Alert ''Check-In Failed'' (Text ''Location permission is required for attendance'')]\<rparr>
     \<and> handleCheckOut srv dev imageUri s
           = s\<lparr>home_state.capturing := False, processing := False,
               alerts := alerts s @ [Alert ''Check-Out Failed'' (Text ''Location permission is required for attendance'')]\<rparr>
     \<and> sent (world (capture srv dev imageUri s)) = sent (world s)"
  using assms
  by (simp add: handleCheckIn_def handleCheckOut_def capture_def onCapture_def Let_def)

theorem permission_denied_no_request_witness:
  "handleCheckIn home_server denied_device ''file:///face.jpg'' (camera_open None)
     = (camera_open None)\<lparr>home_state.capturing := False, processing := False,
          alerts := [Alert ''Check-In Failed'' (Text ''Location permission is required for attendance'')]\<rparr>
   \<and> sent (world (capture home_server denied_device ''file:///face.jpg'' (camera_open None))) = []"
proof -
  have p: "permission denied_device = Inr ''denied''" and q: "''denied'' \<noteq> ''granted''"
    by (simp_all add: denied_device_def)
  from permission_denied_no_request [OF p q, of home_server "''file:///face.jpg''" "camera_open None"]
  show ?thesis by (simp add: camera_open_def a_session_def)
qed

lemma status_checked_in_iff:
  "status_checked_in st = (\<exists>a. st = Some (StatusObj a) \<and> checked_in a)"
  by (auto simp: status_checked_in_def split: option.splits home_json.splits)

text \<open>
  C10. The handler of a completed capture follows the status of the render. If the
  fetched status has \<open>checked_in\<close> true, the capture sends nothing to the check-in
  endpoint, and with the camera open, the permission granted and a position obtained it
  sends exactly one request, carrying the captured image, to the check-out endpoint.
  Otherwise (no status fetched, or a status whose \<open>checked_in\<close> is not true) it sends
  nothing to the check-out endpoint, and under the same conditions exactly one request,
  carrying the image, to the check-in endpoint. So one capture never reaches both
  endpoints. While the screen is loading or the camera is closed, a capture does
  nothing.
\<close>

theorem capture_selects_endpoint:
  "((\<exists>a. status s = Some (StatusObj a) \<and> checked_in a) \<longrightarrow>
      to_endpoint ''/api/attendance/check-in''
        (issued (world s) (world (capture srv dev imageUri s))) = []
      \<and> (\<not> home_state.loading s \<and> home_state.capturing s \<and> permission dev = Inr ''granted''
           \<and> position dev = Inr (latitude, longitude) \<longrightarrow>
         to_endpoint ''/api/attendance/check-out''
           (issued (world s) (world (capture srv dev imageUri s)))
         = [check_request ''/api/attendance/check-out'' (getToken (world s)) latitude longitude imageUri]))
   \<and> ((\<forall>a. status s = Some (StatusObj a) \<longrightarrow> \<not> checked_in a) \<longrightarrow>
      to_endpoint ''/api/attendance/check-out''
        (issued (world s) (world (capture srv dev imageUri s))) = []
      \<and> (\<not> home_state.loading s \<and> home_state.capturing s \<and> permission dev = Inr ''granted''
           \<and> position dev = Inr (latitude, longitude) \<longrightarrow>
         to_endpoint ''/api/attendance/check-in''
           (issued (world s) (world (capture srv dev imageUri s)))
         = [check_request ''/api/attendance/check-in'' (getToken (world s)) latitude longitude imageUri]))
   \<and> (home_state.loading s \<or> \<not> home_state.capturing s \<longrightarrow> capture srv dev imageUri s = s)"
proof (intro conjI impI)
  assume "\<exists>a. status s = Some (StatusObj a) \<and> checked_in a"
  then have c: "status_checked_in (status s)" by (simp add: status_checked_in_iff)
  show "to_endpoint ''/api/attendance/check-in''
        (issued (world s) (world (capture srv dev imageUri s))) = []"
    using c by (simp add: capture_def onCapture_def to_endpoint_handleCheckOut issued_same)
       (simp add: to_endpoint_def)
  assume "\<not> home_state.loading s \<and> home_state.capturing s \<and> permission dev = Inr ''granted''
           \<and> position dev = Inr (latitude, longitude)"
  then show "to_endpoint ''/api/attendance/check-out''
           (issued (world s) (world (capture srv dev imageUri s)))
         = [check_request ''/api/attendance/check-out'' (getToken (world s)) latitude longitude imageUri]"
    using c by (simp add: capture_def onCapture_def to_endpoint_handleCheckOut)
next
  assume "\<forall>a. status s = Some (StatusObj a) \<longrightarrow> \<not> checked_in a"
  then have c: "\<not> status_checked_in (status s)" by (simp add: status_checked_in_iff)
  show "to_endpoint ''/api/attendance/check-out''
        (issued (world s) (world (capture srv dev imageUri s))) = []"
    using c by (simp add: capture_def onCapture_def to_endpoint_handleCheckIn issued_same)
       (simp add: to_endpoint_def)
  assume "\<not> home_state.loading s \<and> home_state.capturing s \<and> permission dev = Inr ''granted''
           \<and> position dev = Inr (latitude, longitude)"
  then show "to_endpoint ''/api/attendance/check-in''
           (issued (world s) (world (capture srv dev imageUri s)))
         = [check_request ''/api/attendance/check-in'' (getToken (world s)) latitude longitude imageUri]"
    using c by (simp add: capture_def onCapture_def to_endpoint_handleCheckIn)
next
  assume "home_state.loading s \<or> \<not> home_state.capturing s"
  then show "capture srv dev imageUri s = s" by (auto simp: capture_def)
qed

theorem capture_selects_endpoint_witness:
  "to_endpoint ''/api/attendance/check-in''
      (issued a_session (world (capture home_server granted_device ''file:///face.jpg''
         (camera_open (Some (StatusObj \<lparr>checked_in = True, checked_out = False\<rparr>)))))) = []
   \<and> to_endpoint ''/api/attendance/check-out''
      (issued a_session (world (capture home_server granted_device ''file:///face.jpg''
         (camera_open (Some (StatusObj \<lparr>checked_in = True, checked_out = False\<rparr>))))))
     = [check_request ''/api/attendance/check-out'' (Some ''t0k3n'') 6 3 ''file:///face.jpg'']
   \<and> to_endpoint ''/api/attendance/check-out''
      (issued a_session (world (capture home_server granted_device ''file:///face.jpg''
         (camera_open (Some (StatusObj \<lparr>checked_in = False, checked_out = False\<rparr>)))))) = []
   \<and> to_endpoint ''/api/attendance/check-in''
      (issued a_session (world (capture home_server granted_device ''file:///face.jpg''
         (camera_open (Some (StatusObj \<lparr>checked_in = False, checked_out = False\<rparr>))))))
     = [check_request ''/api/attendance/check-in'' (Some ''t0k3n'') 6 3 ''file:///face.jpg'']
   \<and> to_endpoint ''/api/attendance/check-out''
      (issued a_session (world (capture home_server granted_device ''file:///face.jpg''
         (camera_open None)))) = []
   \<and> to_endpoint ''/api/attendance/check-in''
      (issued a_session (world (capture home_server granted_device ''file:///face.jpg''
         (camera_open None))))
     = [check_request ''/api/attendance/check-in'' (Some ''t0k3n'') 6 3 ''file:///face.jpg'']
   \<and> capture home_server granted_device ''file:///face.jpg''
        ((camera_open None)\<lparr>home_state.capturing := False\<rparr>)
     = (camera_open None)\<lparr>home_state.capturing := False\<rparr>"
proof -
  have 1: "to_endpoint ''/api/attendance/check-in''
      (issued a_session (world (capture home_server granted_device ''file:///face.jpg''
         (camera_open (Some (StatusObj \<lparr>checked_in = True, checked_out = False\<rparr>)))))) = []
   \<and> to_endpoint ''/api/attendance/check-out''
      (issued a_session (world (capture home_server granted_device ''file:///face.jpg''
         (camera_open (Some (StatusObj \<lparr>checked_in = True, checked_out = False\<rparr>))))))
     = [check_request ''/api/attendance/check-out'' (Some ''t0k3n'') 6 3 ''file:///face.jpg'']"
    using capture_selects_endpoint
      [of "camera_open (Some (StatusObj \<lparr>checked_in = True, checked_out = False\<rparr>))"
          home_server granted_device "''file:///face.jpg''" 6 3, THEN conjunct1]
    by (simp add: camera_open_def granted_device_def a_session_def getToken_def)
  have 2: "to_endpoint ''/api/attendance/check-out''
      (issued a_session (world (capture home_server granted_device ''file:///face.jpg''
         (camera_open (Some (StatusObj \<lparr>checked_in = False, checked_out = False\<rparr>)))))) = []
   \<and> to_endpoint ''/api/attendance/check-in''
      (issued a_session (world (capture home_server granted_device ''file:///face.jpg''
         (camera_open (Some (StatusObj \<lparr>checked_in = False, checked_out = False\<rparr>))))))
     = [check_request ''/api/attendance/check-in'' (Some ''t0k3n'') 6 3 ''file:///face.jpg'']"
    using capture_selects_endpoint
      [of "camera_open (Some (StatusObj \<lparr>checked_in = False, checked_out = False\<rparr>))"
          home_server granted_device "''file:///face.jpg''" 6 3, THEN conjunct2, THEN conjunct1]
    by (simp add: camera_open_def granted_device_def a_session_def getToken_def)
  have 3: "to_endpoint ''/api/attendance/check-out''
      (issued a_session (world (capture home_server granted_device ''file:///face.jpg''
         (camera_open None)))) = []
   \<and> to_endpoint ''/api/attendance/check-in''
      (issued a_session (world (capture home_server granted_device ''file:///face.jpg''
         (camera_open None))))
     = [check_request ''/api/attendance/check-in'' (Some ''t0k3n'') 6 3 ''file:///face.jpg'']"
    using capture_selects_endpoint
      [of "camera_open None" home_server granted_device "''file:///face.jpg''" 6 3,
       THEN conjunct2, THEN conjunct1]
    by (simp add: camera_open_def granted_device_def a_session_def getToken_def)
  have 4: "capture home_server granted_device ''file:///face.jpg''
        ((camera_open None)\<lparr>home_state.capturing := False\<rparr>)
     = (camera_open None)\<lparr>home_state.capturing := False\<rparr>"
    using capture_selects_endpoint
      [of "(camera_open None)\<lparr>home_state.capturing := False\<rparr>" home_server granted_device
          "''file:///face.jpg''", THEN conjunct2, THEN conjunct2]
    by simp
  from 1 2 3 4 show ?thesis by blast
qed

subsection \<open>The employee history screen\<close>

lemma loadMore_idle:
  assumes "pagination s = None \<or> (\<exists>pg. pagination s = Some pg \<and> pages pg \<le> page s)"
  shows "(loadMore ^^ n) s = s"
proof (induction n)
  case 0
  show ?case by simp
next
  case (Suc n)
  have "loadMore s = s" using assms by (auto simp: loadMore_def)
  with Suc show ?case by simp
qed

lemma onRefresh_starts:
  "page (onRefresh s) = 1 \<and> refreshing (onRefresh s)
   \<and> pending (onRefresh s) = pending s @ (if page s = 1 then [1] else [page s, 1])"
  by (simp add: onRefresh_def setPage_def loadRecords_start_def)

text \<open>
  C4, as stated, fails in its first half. After the first page (\<open>mon\<close>) has arrived,
  reaching the end of the list fetches page 2, and when it arrives the list shows the
  records of page 2 alone (\<open>tue\<close>), not the records of page 1 followed by them.
\<close>

theorem append_counterexample:
  "records page_one = [''mon'']
   \<and> pagination page_one = Some \<lparr>pagination_info.page = 1, pages = 3, total = 3\<rparr>
   \<and> records (run list_server [EndReached, Response 0] page_one) = [''tue'']
   \<and> page (run list_server [EndReached, Response 0] page_one) = 2"
  by code_simp

text \<open>
  C4, amended. Reaching the end of the list while \<open>page\<close> is below \<open>pagination.pages\<close>
  moves the cursor to \<open>page + 1\<close> and fetches that page; when its response arrives, the
  list is replaced by the records of the new page (nothing is accumulated). Once
  \<open>page\<close> is at least \<open>pagination.pages\<close>, or while no pagination is known, \<open>loadMore\<close>
  changes nothing, however often it is invoked: no fetch is started and the list stays
  as it is.
\<close>

theorem load_more_replaces:
  "(\<not> loading s \<and> pagination s = Some pg \<and> page s < pages pg \<and> pending s = []
      \<and> getMyAttendance srv (page s + 1) 30 (world s) = (Inr (recs, pg1), w) \<longrightarrow>
    run srv [EndReached, Response 0] s
      = s\<lparr>world := w, records := recs, pagination := Some pg1, loading := False,
          refreshing := False, page := page s + 1\<rparr>)
   \<and> (pagination s = None \<or> (\<exists>pg. pagination s = Some pg \<and> pages pg \<le> page s) \<longrightarrow>
        (loadMore ^^ n) s = s \<and> run srv (replicate n EndReached) s = s)"
proof (intro conjI impI)
  assume a: "\<not> loading s \<and> pagination s = Some pg \<and> page s < pages pg \<and> pending s = []
      \<and> getMyAttendance srv (page s + 1) 30 (world s) = (Inr (recs, pg1), w)"
  then show "run srv [EndReached, Response 0] s
      = s\<lparr>world := w, records := recs, pagination := Some pg1, loading := False,
          refreshing := False, page := page s + 1\<rparr>"
    by (simp add: run_def loadMore_def setPage_def loadRecords_start_def loadRecords_resume_def)
next
  assume b: "pagination s = None \<or> (\<exists>pg. pagination s = Some pg \<and> pages pg \<le> page s)"
  then show "(loadMore ^^ n) s = s" by (rule loadMore_idle)
  from b have "step srv s EndReached = s" by (auto simp: loadMore_def)
  then show "run srv (replicate n EndReached) s = s"
    by (induction n) (simp_all add: run_def)
qed

theorem load_more_replaces_witness:
  "records (run list_server [EndReached, Response 0] page_one) = [''tue'']
   \<and> page (run list_server [EndReached, Response 0] page_one) = 2
   \<and> (loadMore ^^ 2) page_three = page_three
   \<and> run list_server (replicate 2 EndReached) page_three = page_three"
proof -
  obtain r w where g: "getMyAttendance list_server (page page_one + 1) 30 (world page_one) = (r, w)"
    by (cases "getMyAttendance list_server (page page_one + 1) 30 (world page_one)")
  have "fst (getMyAttendance list_server (page page_one + 1) 30 (world page_one))
      = Inr ([''tue''], \<lparr>pagination_info.page = 2, pages = 3, total = 3\<rparr>)"
    by code_simp
  with g have r: "r = Inr ([''tue''], \<lparr>pagination_info.page = 2, pages = 3, total = 3\<rparr>)" by simp
  have h: "\<not> loading page_one"
    "pagination page_one = Some \<lparr>pagination_info.page = 1, pages = 3, total = 3\<rparr>"
    "page page_one = 1" "pending page_one = []"
    by code_simp+
  have k: "pagination page_three = Some \<lparr>pagination_info.page = 3, pages = 3, total = 3\<rparr>"
    "page page_three = 3"
    by code_simp+
  from load_more_replaces [of page_one "\<lparr>pagination_info.page = 1, pages = 3, total = 3\<rparr>"
      list_server "[''tue'']" "\<lparr>pagination_info.page = 2, pages = 3, total = 3\<rparr>" w, THEN conjunct1]
  have 1: "run list_server [EndReached, Response 0] page_one
      = page_one\<lparr>world := w, records := [''tue''],
          pagination := Some \<lparr>pagination_info.page = 2, pages = 3, total = 3\<rparr>, loading := False,
          refreshing := False, page := page page_one + 1\<rparr>"
    using g r h by simp
  from load_more_replaces [where s = page_three and n = 2 and srv = list_server, THEN conjunct2]
  have 2: "(loadMore ^^ 2) page_three = page_three
      \<and> run list_server (replicate 2 EndReached) page_three = page_three"
    using k by simp
  from 1 2 h(3) show ?thesis by simp
qed

text \<open>
  C6. Pull-to-refresh sets the cursor to page 1, but the \<open>loadRecords()\<close> that
  \<open>onRefresh\<close> calls itself belongs to the render before \<open>setPage(1)\<close> and fetches the
  page that was current; the fetch of page 1 is started by the effect of the next
  render. From page 3 two fetches are in flight, for pages 3 and 1. If the response for
  page 1 arrives first, the list ends with the records of page 3 (\<open>wed\<close>) under a
  cursor of 1; if the responses arrive in the order of the requests, it ends with the
  records of page 1 (\<open>mon\<close>). So the list is not always replaced by page 1.
\<close>

theorem refresh_race:
  "page page_three = 3 \<and> records page_three = [''wed'']
   \<and> pending (run list_server [PullToRefresh] page_three) = [3, 1]
   \<and> page (run list_server [PullToRefresh, Response 1, Response 0] page_three) = 1
   \<and> records (run list_server [PullToRefresh, Response 1, Response 0] page_three) = [''wed'']
   \<and> pagination (run list_server [PullToRefresh, Response 1, Response 0] page_three)
       = Some \<lparr>pagination_info.page = 3, pages = 3, total = 3\<rparr>
   \<and> records (run list_server [PullToRefresh, Response 0, Response 0] page_three) = [''mon'']"
  by code_simp

subsection \<open>Validation of the image reference\<close>

text \<open>
  C9, as stated, fails. A capture with the empty reference, on the home screen with
  the permission granted, is sent to the check-in endpoint as a file part with an empty
  \<open>uri\<close>, and the attempt ends with the success alert. On the registration screen a
  reference that is no URI is sent as a file part as well.
\<close>

theorem image_uri_counterexample:
  "map body (issued a_session (world (capture home_server granted_device [] (camera_open None))))
     = [FormData [(''latitude'', Num 6), (''longitude'', Num 3),
                  (''face_image'', File [] ''image/jpeg'' ''face.jpg'')], NoBody]
   \<and> alerts (capture home_server granted_device [] (camera_open None))
     = [Alert (''Success! '' @ check_mark) (CheckedInAt confirmation)]
   \<and> map body (issued a_session (world (handleRegister (answering accepted) (filled_form (Some ''not a uri'')))))
     = [FormData [(''employee_id'', Str ''E7''), (''name'', Str ''Ada''), (''email'', Str ''ada@example.org''),
                  (''password'', Str16 (units ''Valid1Pass'')), (''role'', Str ''employee''),
                  (''face_image'', File ''not a uri'' ''image/jpeg'' ''face.jpg'')]]
   \<and> alerts (handleRegister (answering accepted) (filled_form (Some ''not a uri'')))
     = [Alert ''Success'' (Text ''Employee registered successfully!'')]"
proof -
  have 1: "capture home_server granted_device [] (camera_open None)
      = handleCheckIn home_server granted_device [] (camera_open None)"
    by (simp add: capture_def onCapture_def camera_open_def status_checked_in_def)
  have 2: "fst (checkIn home_server 6 3 [] a_session) = Inr (ResultObj confirmation)"
    by (simp add: checkIn_def fetch_def home_server_def read_json_def ok_def Let_def)
  have 3: "world (camera_open None) = a_session" by (simp add: camera_open_def)
  have a: "map body (issued a_session (world (capture home_server granted_device [] (camera_open None))))
     = [FormData [(''latitude'', Num 6), (''longitude'', Num 3),
                  (''face_image'', File [] ''image/jpeg'' ''face.jpg'')], NoBody]"
    unfolding 1 using handleCheckIn_issued [of "camera_open None" home_server granted_device "[]"]
    by (simp add: 2 3 granted_device_def check_request_def face_image_part_def startsWith_def)
  have b: "alerts (capture home_server granted_device [] (camera_open None))
     = [Alert (''Success! '' @ check_mark) (CheckedInAt confirmation)]"
    unfolding 1
    by (simp add: handleCheckIn_def loadStatus_def getStatus_def get_json_def checkIn_def fetch_def
          home_server_def read_json_def ok_def Let_def camera_open_def granted_device_def)
  have v: "validatePassword (units ''Valid1Pass'') = None"
    by code_simp
  have ne: "units ''Valid1Pass'' \<noteq> []"
    by (simp add: units_def)
  have c: "map body (issued a_session (world (handleRegister (answering accepted) (filled_form (Some ''not a uri'')))))
     = [FormData [(''employee_id'', Str ''E7''), (''name'', Str ''Ada''), (''email'', Str ''ada@example.org''),
                  (''password'', Str16 (units ''Valid1Pass'')), (''role'', Str ''employee''),
                  (''face_image'', File ''not a uri'' ''image/jpeg'' ''face.jpg'')]]"
    by (simp add: handleRegister_def filled_form_def truthy_def v ne registerEmployee_def fetch_def
          answering_def accepted_def read_json_def ok_def js_string_def Let_def issued_def
          face_image_part_def startsWith_def a_session_def)
  have d: "alerts (handleRegister (answering accepted) (filled_form (Some ''not a uri'')))
     = [Alert ''Success'' (Text ''Employee registered successfully!'')]"
    by (simp add: handleRegister_def filled_form_def truthy_def v ne registerEmployee_def fetch_def
          answering_def accepted_def read_json_def ok_def js_string_def Let_def)
  from a b c d show ?thesis by blast
qed

lemma validatePassword_nonempty: "validatePassword p = None \<Longrightarrow> p \<noteq> []"
  by (auto simp: validatePassword_def)

text \<open>
  C9, amended. The only local check on the image is the required-fields check of the
  registration screen: with no captured image, or an empty one, \<open>handleRegister\<close>
  raises the alert \<open>Please fill all fields and capture face image\<close> and sends nothing.
  A non-empty reference passes that check whatever its form, and the three uploads of
  \<open>ApiService\<close> send the reference they are given, the empty one included, without
  looking at it beyond the \<open>data:image/\<close> prefix.
\<close>

theorem image_uri_checks:
  "(\<not> truthy (capturedImage s) \<longrightarrow>
      handleRegister srv s
        = s\<lparr>alerts := alerts s @ [Alert ''Error'' (Text ''Please fill all fields and capture face image'')]\<rparr>)
   \<and> (employeeId s \<noteq> [] \<and> name s \<noteq> [] \<and> email s \<noteq> [] \<and> validatePassword (password s) = None
        \<and> capturedImage s = Some u \<and> u \<noteq> [] \<longrightarrow>
      (\<exists>req pre. sent (world (handleRegister srv s)) = sent (world s) @ [req]
          \<and> body req = FormData (pre @ face_image_part u)))
   \<and> (c \<in> {CheckIn latitude longitude imageUri, CheckOut latitude longitude imageUri,
             RegisterEmployee employeeData imageUri} \<longrightarrow>
      (\<exists>req pre. sent (snd (call srv1 c w)) = sent w @ [req]
          \<and> body req = FormData (pre @ face_image_part imageUri)))"
proof (intro conjI impI)
  assume "\<not> truthy (capturedImage s)"
  then show "handleRegister srv s
        = s\<lparr>alerts := alerts s @ [Alert ''Error'' (Text ''Please fill all fields and capture face image'')]\<rparr>"
    by (simp add: handleRegister_def)
next
  assume a: "employeeId s \<noteq> [] \<and> name s \<noteq> [] \<and> email s \<noteq> [] \<and> validatePassword (password s) = None
        \<and> capturedImage s = Some u \<and> u \<noteq> []"
  then have p: "password s \<noteq> []" using validatePassword_nonempty by blast
  show "\<exists>req pre. sent (world (handleRegister srv s)) = sent (world s) @ [req]
          \<and> body req = FormData (pre @ face_image_part u)"
    using a p
    by (simp add: handleRegister_def truthy_def js_string_def registerEmployee_def fetch_def Let_def
          split: sum.splits)
next
  assume "c \<in> {CheckIn latitude longitude imageUri, CheckOut latitude longitude imageUri,
             RegisterEmployee employeeData imageUri}"
  then consider "c = CheckIn latitude longitude imageUri"
    | "c = CheckOut latitude longitude imageUri" | "c = RegisterEmployee employeeData imageUri"
    by auto
  then show "\<exists>req pre. sent (snd (call srv1 c w)) = sent w @ [req]
          \<and> body req = FormData (pre @ face_image_part imageUri)"
  proof cases
    case 1
    show ?thesis unfolding 1 by (simp add: checkIn_def fetch_def Let_def)
  next
    case 2
    show ?thesis unfolding 2 by (simp add: checkOut_def fetch_def Let_def)
  next
    case 3
    show ?thesis unfolding 3 by (simp add: registerEmployee_def fetch_def Let_def split: sum.splits)
  qed
qed

theorem image_uri_checks_witness:
  "handleRegister (answering accepted) (filled_form None)
     = (filled_form None)\<lparr>alerts := [Alert ''Error'' (Text ''Please fill all fields and capture face image'')]\<rparr>
   \<and> (\<exists>req pre. sent (world (handleRegister (answering accepted) (filled_form (Some ''not a uri'')))) = [req]
          \<and> body req = FormData (pre @ [(''face_image'', File ''not a uri'' ''image/jpeg'' ''face.jpg'')]))
   \<and> (\<exists>req pre. sent (snd (call (answering accepted) (CheckIn 6 3 []) no_session)) = [req]
          \<and> body req = FormData (pre @ [(''face_image'', File [] ''image/jpeg'' ''face.jpg'')]))"
proof -
  have v: "validatePassword (units ''Valid1Pass'') = None"
    by code_simp
  have ne: "units ''Valid1Pass'' \<noteq> []"
    by (simp add: units_def)
  have 1: "handleRegister (answering accepted) (filled_form None)
     = (filled_form None)\<lparr>alerts := [Alert ''Error'' (Text ''Please fill all fields and capture face image'')]\<rparr>"
    using image_uri_checks [of "filled_form None" "answering accepted", THEN conjunct1]
    by (simp add: filled_form_def truthy_def)
  have 2: "\<exists>req pre. sent (world (handleRegister (answering accepted) (filled_form (Some ''not a uri'')))) = [req]
          \<and> body req = FormData (pre @ [(''face_image'', File ''not a uri'' ''image/jpeg'' ''face.jpg'')])"
    using image_uri_checks [of "filled_form (Some ''not a uri'')" "answering accepted" "''not a uri''",
        THEN conjunct2, THEN conjunct1] v ne
    by (simp add: filled_form_def a_session_def face_image_part_def startsWith_def)
  have 3: "\<exists>req pre. sent (snd (call (answering accepted) (CheckIn 6 3 []) no_session)) = [req]
          \<and> body req = FormData (pre @ [(''face_image'', File [] ''image/jpeg'' ''face.jpg'')])"
    using image_uri_checks [of _ _ _ "CheckIn 6 3 []" 6 3 "[]" _ "answering accepted" no_session,
        THEN conjunct2, THEN conjunct2]
    by (simp add: no_session_def face_image_part_def startsWith_def)
  from 1 2 3 show ?thesis by blast
qed

subsection \<open>Password validation\<close>

text \<open>
  C7. \<open>validatePassword\<close> returns no error message exactly when the password has at
  least 8 code units (what \<open>pwd.length\<close> counts), an uppercase letter (\<open>A\<close> to \<open>Z\<close>), a
  lowercase letter (\<open>a\<close> to \<open>z\<close>) and a digit (\<open>0\<close> to \<open>9\<close>), the classes its regular
  expressions test. It rejects \<open>abc\<close>, \<open>alllowercase1\<close>, \<open>ALLUPPERCASE1\<close> and
  \<open>NoDigitsHere\<close>, each with the message of the rule it breaks, and accepts
  \<open>Valid1Pass\<close>. A password of seven code units with a letter outside ASCII
  (\<open>Z\<close>, U+00FC, \<open>rich1\<close>) is too short, whatever the number of its octets.
\<close>

theorem validatePassword_accepts_iff:
  "(validatePassword pwd = None) =
     (8 \<le> length pwd \<and> (\<exists>c \<in> set pwd. is_upper c) \<and> (\<exists>c \<in> set pwd. is_lower c)
        \<and> (\<exists>c \<in> set pwd. is_digit c))
   \<and> validatePassword (units ''abc'') = Some ''Password must be at least 8 characters''
   \<and> validatePassword (units ''alllowercase1'') = Some ''Password must contain uppercase letter''
   \<and> validatePassword (units ''ALLUPPERCASE1'') = Some ''Password must contain lowercase letter''
   \<and> validatePassword (units ''NoDigitsHere'') = Some ''Password must contain a digit''
   \<and> validatePassword (units ''Valid1Pass'') = None
   \<and> validatePassword (units ''Z'' @ [0xFC] @ units ''rich1'')
       = Some ''Password must be at least 8 characters''"
proof -
  have iff: "(validatePassword pwd = None) =
     (8 \<le> length pwd \<and> (\<exists>c \<in> set pwd. is_upper c) \<and> (\<exists>c \<in> set pwd. is_lower c)
        \<and> (\<exists>c \<in> set pwd. is_digit c))"
    unfolding validatePassword_def test_range_upper test_range_lower test_range_digit
    by auto
  have e1: "validatePassword (units ''abc'') = Some ''Password must be at least 8 characters''"
    by code_simp
  have e2: "validatePassword (units ''alllowercase1'') = Some ''Password must contain uppercase letter''"
    by code_simp
  have e3: "validatePassword (units ''ALLUPPERCASE1'') = Some ''Password must contain lowercase letter''"
    by code_simp
  have e4: "validatePassword (units ''NoDigitsHere'') = Some ''Password must contain a digit''"
    by code_simp
  have e5: "validatePassword (units ''Valid1Pass'') = None"
    by code_simp
  have e6: "validatePassword (units ''Z'' @ [0xFC] @ units ''rich1'')
       = Some ''Password must be at least 8 characters''"
    by code_simp
  from iff e1 e2 e3 e4 e5 e6 show ?thesis by blast
qed

theorem validatePassword_accepts_iff_witness:
  "validatePassword (units ''Valid1Pass'') = None
   \<and> 8 \<le> length (units ''Valid1Pass'') \<and> (\<exists>c \<in> set (units ''Valid1Pass''). is_upper c)
   \<and> (\<exists>c \<in> set (units ''Valid1Pass''). is_lower c) \<and> (\<exists>c \<in> set (units ''Valid1Pass''). is_digit c)"
proof -
  have "validatePassword (units ''Valid1Pass'') = None" by code_simp
  with validatePassword_accepts_iff [of "units ''Valid1Pass''"] show ?thesis by blast
qed

end
